theory Spec2Isabelle
  imports Main
begin

section \<open>JavaScript string primitives used by the dispatch code\<close>

text \<open>
  Strings are lists of characters. Only the ASCII white space characters (tab, line feed,
  vertical tab, form feed, carriage return, space) are treated as white space.
\<close>

definition is_space :: "char \<Rightarrow> bool" where
  "is_space c =
     (c = CHR 0x09 \<or> c = CHR 0x0A \<or> c = CHR 0x0B \<or> c = CHR 0x0C \<or> c = CHR 0x0D \<or> c = CHR '' '')"

text \<open>\<^verbatim>\<open>String.prototype.trim\<close>.\<close>

definition js_trim :: "string \<Rightarrow> string" where
  "js_trim s = rev (dropWhile is_space (rev (dropWhile is_space s)))"

text \<open>The value of a character as a digit of the given radix, if it is one.\<close>

definition digit_of :: "nat \<Rightarrow> char \<Rightarrow> nat option" where
  "digit_of radix c =
     (let n = (of_char c :: nat);
          v = (if 48 \<le> n \<and> n \<le> 57 then Some (n - 48)
               else if 97 \<le> n \<and> n \<le> 122 then Some (n - 87)
               else if 65 \<le> n \<and> n \<le> 90 then Some (n - 55)
               else None)
      in case v of None \<Rightarrow> None | Some d \<Rightarrow> if d < radix then Some d else None)"

text \<open>
  \<^verbatim>\<open>parseInt(s)\<close> with no radix argument: leading white space is skipped, one sign is
  read, a prefix \<^verbatim>\<open>0x\<close> selects radix 16, and the longest run of digits is the value;
  \<open>None\<close> is \<^verbatim>\<open>NaN\<close>. The value is an exact integer here (a double in JavaScript,
  which is exact on the range the port check accepts).
\<close>

definition parseInt :: "string \<Rightarrow> int option" where
  "parseInt s =
     (let t = dropWhile is_space s;
          neg = (take 1 t = ''-'');
          u = (if take 1 t = ''-'' \<or> take 1 t = ''+'' then drop 1 t else t);
          hex = (take 2 u = ''0x'' \<or> take 2 u = ''0X'');
          radix = (if hex then 16 else 10);
          v = (if hex then drop 2 u else u);
          ds = takeWhile (\<lambda>c. digit_of radix c \<noteq> None) v
      in if ds = [] then None
         else Some ((if neg then - 1 else 1) *
                int (foldl (\<lambda>a c. a * radix + (case digit_of radix c of Some d \<Rightarrow> d | None \<Rightarrow> 0)) 0 ds)))"






text \<open>
  \<^verbatim>\<open>html.replace(/<[^>]*>/g, '')\<close>: every \<^verbatim>\<open><\<close> that has a later \<^verbatim>\<open>>\<close> is removed
  together with the text up to the first such \<^verbatim>\<open>>\<close>.
\<close>

function strip_tags :: "string \<Rightarrow> string" where
  "strip_tags [] = []"
| "strip_tags (c # cs) =
     (if c = CHR ''<'' \<and> CHR ''>'' \<in> set cs
      then strip_tags (drop 1 (dropWhile (\<lambda>x. x \<noteq> CHR ''>'') cs))
      else c # strip_tags cs)"
  by pat_completeness auto
termination
proof (relation "measure length")
  show "wf (measure length)" by simp
next
  fix c :: char and cs :: string
  have "length (dropWhile (\<lambda>x. x \<noteq> CHR ''>'') cs) \<le> length cs"
    by (rule length_dropWhile_le)
  then show "(drop 1 (dropWhile (\<lambda>x. x \<noteq> CHR ''>'') cs), c # cs) \<in> measure length"
    by simp
next
  fix c :: char and cs :: string
  show "(cs, c # cs) \<in> measure length" by simp
qed

section \<open>Credential resolver\<close>

subsection \<open>The browser-side resolver \<^verbatim>\<open>getEmailConfig\<close> (utils/emailSender.ts)\<close>

record Auth =
  auth_user :: string
  auth_pass :: string

text \<open>The interface \<^verbatim>\<open>EmailData\<close>; every field is a string, empty when not filled in.\<close>

record EmailData =
  ed_emailType :: string
  ed_from :: string
  ed_password :: string
  ed_domain :: string
  ed_smtpPort :: string
  ed_to :: string
  ed_cc :: string
  ed_subject :: string
  ed_content :: string

record EmailConfig =
  ec_host :: string
  ec_port :: int
  ec_secure :: bool
  ec_auth :: Auth

text \<open>A thrown \<^verbatim>\<open>Error\<close> is \<open>Inl\<close> of its message.\<close>

definition getEmailConfig :: "EmailData \<Rightarrow> string + EmailConfig" where
  "getEmailConfig emailData =
     (if ed_emailType emailData = ''gmail'' then
        Inr \<lparr>ec_host = ''smtp.gmail.com'', ec_port = 587, ec_secure = False,
             ec_auth = \<lparr>auth_user = ed_from emailData, auth_pass = ed_password emailData\<rparr>\<rparr>
      else if ed_domain emailData = [] then Inl ''SMTP domain is required for website emails''
      else if ed_smtpPort emailData = [] then Inl ''SMTP port is required for website emails''
      else (case parseInt (ed_smtpPort emailData) of
              None \<Rightarrow> Inl ''Invalid SMTP port number''
            | Some port \<Rightarrow>
                if port < 1 \<or> port > 65535 then Inl ''Invalid SMTP port number''
                else Inr \<lparr>ec_host = ed_domain emailData, ec_port = port,
                          ec_secure = (port = 465),
                          ec_auth = \<lparr>auth_user = ed_from emailData,
                                     auth_pass = ed_password emailData\<rparr>\<rparr>))"

subsection \<open>The server-side transport options\<close>

text \<open>
  The stored email settings of a company (interface \<^verbatim>\<open>EmailSettings\<close>): host, port and
  the two flags are optional fields, \<open>None\<close> when the stored object does not have them.
\<close>

record EmailSettings =
  es_email :: string
  es_password :: string
  es_type :: string
  es_smtpHost :: "string option"
  es_smtpPort :: "int option"
  es_useSSL :: "bool option"
  es_useTLS :: "bool option"

text \<open>
  The object handed to nodemailer's transport factory, which is taken as it is: a
  well-known service with credentials, or explicit SMTP options. A field holding
  \<^verbatim>\<open>undefined\<close> or \<^verbatim>\<open>NaN\<close> is \<open>None\<close>; \<open>NoTls\<close> is an options object without the
  \<^verbatim>\<open>tls\<close> key, and the three timeouts are present only where the code sets them.
\<close>

datatype tls_options = NoTls | RejectUnauthorized "bool option"

record SmtpOptions =
  so_host :: "string option"
  so_port :: "int option"
  so_secure :: "bool option"
  so_auth :: Auth
  so_tls :: tls_options
  so_timeouts :: "(nat \<times> nat \<times> nat) option"

datatype transport_options = ServiceTransport string Auth | SmtpTransport SmtpOptions

definition settings_auth :: "EmailSettings \<Rightarrow> Auth" where
  "settings_auth emailSettings =
     \<lparr>auth_user = es_email emailSettings, auth_pass = es_password emailSettings\<rparr>"

text \<open>
  The \<^verbatim>\<open>switch (emailSettings.type)\<close> of routes/emails.js (in \<^verbatim>\<open>/send\<close> and in
  \<^verbatim>\<open>/send-bulk\<close>); the default branch answers 400 with the message given as \<open>Inl\<close>.
\<close>

definition routes_transport_options :: "EmailSettings \<Rightarrow> string + transport_options" where
  "routes_transport_options emailSettings =
     (if es_type emailSettings = ''gmail'' then
        Inr (ServiceTransport ''gmail'' (settings_auth emailSettings))
      else if es_type emailSettings = ''outlook'' then
        Inr (ServiceTransport ''outlook'' (settings_auth emailSettings))
      else if es_type emailSettings = ''yahoo'' then
        Inr (ServiceTransport ''yahoo'' (settings_auth emailSettings))
      else if es_type emailSettings = ''custom'' then
        Inr (SmtpTransport
          \<lparr>so_host = es_smtpHost emailSettings,
           so_port = es_smtpPort emailSettings,
           so_secure = es_useSSL emailSettings,
           so_auth = settings_auth emailSettings,
           so_tls = RejectUnauthorized (es_useTLS emailSettings),
           so_timeouts = None\<rparr>)
      else Inl ''Invalid email type'')"

text \<open>
  The \<^verbatim>\<open>if\<close> chain of server.js (\<^verbatim>\<open>POST /api/emails/send\<close>). \<^verbatim>\<open>parseInt\<close> of a stored
  number is that number, and of a missing port it is \<^verbatim>\<open>NaN\<close>.
\<close>

definition server_transport_options :: "EmailSettings \<Rightarrow> string + transport_options" where
  "server_transport_options emailSettings =
     (if es_type emailSettings = ''gmail'' then
        Inr (ServiceTransport ''gmail'' (settings_auth emailSettings))
      else if es_type emailSettings = ''outlook'' then
        Inr (ServiceTransport ''outlook'' (settings_auth emailSettings))
      else if es_type emailSettings = ''yahoo'' then
        Inr (ServiceTransport ''yahoo'' (settings_auth emailSettings))
      else if es_type emailSettings = ''custom'' then
        Inr (SmtpTransport
          \<lparr>so_host = es_smtpHost emailSettings,
           so_port = es_smtpPort emailSettings,
           so_secure = Some (es_smtpPort emailSettings = Some 465),
           so_auth = settings_auth emailSettings,
           so_tls = NoTls,
           so_timeouts = Some (10000, 10000, 10000)\<rparr>)
      else Inl ''Unsupported email type'')"

section \<open>The delivery ledger of routes/emails.js\<close>

text \<open>The \<^verbatim>\<open>enum\<close> of the status field of models/Email.js.\<close>

datatype status = Pending | Sent | Failed | Delivered | Bounced

fun status_name :: "status \<Rightarrow> string" where
  "status_name Pending = ''pending''"
| "status_name Sent = ''sent''"
| "status_name Failed = ''failed''"
| "status_name Delivered = ''delivered''"
| "status_name Bounced = ''bounced''"

record Metadata =
  md_ipAddress :: "string option"
  md_userAgent :: "string option"
  md_campaignName :: "string option"

text \<open>
  A document of the Email model. Times are numbers of milliseconds; \<open>em_createdAt\<close> is
  the timestamp the schema option \<^verbatim>\<open>timestamps\<close> adds when the document is saved. The
  generated key of a document is not part of the model.
\<close>

record Email =
  em_user :: string
  em_company :: string
  em_to :: string
  em_subject :: string
  em_htmlContent :: string
  em_textContent :: "string option"
  em_status :: status
  em_sentAt :: "nat option"
  em_errorMessage :: "string option"
  em_messageId :: "string option"
  em_metadata :: Metadata
  em_createdAt :: "nat option"

text \<open>
  \<^verbatim>\<open>new Email({...})\<close>: the schema trims \<^verbatim>\<open>to\<close>, \<^verbatim>\<open>subject\<close>, \<^verbatim>\<open>textContent\<close>,
  \<^verbatim>\<open>errorMessage\<close> and the campaign name, and the status defaults to pending when
  the constructor is given none.
\<close>

definition new_Email ::
  "string \<Rightarrow> string \<Rightarrow> string \<Rightarrow> string \<Rightarrow> string \<Rightarrow> string option \<Rightarrow> status option \<Rightarrow>
   string option \<Rightarrow> Metadata \<Rightarrow> Email" where
  "new_Email user company to subject htmlContent textContent st errorMessage metadata =
     \<lparr>em_user = user, em_company = company, em_to = js_trim to,
      em_subject = js_trim subject, em_htmlContent = htmlContent,
      em_textContent = map_option js_trim textContent,
      em_status = (case st of None \<Rightarrow> Pending | Some v \<Rightarrow> v),
      em_sentAt = None,
      em_errorMessage = map_option js_trim errorMessage,
      em_messageId = None,
      em_metadata = metadata\<lparr>md_campaignName := map_option js_trim (md_campaignName metadata)\<rparr>,
      em_createdAt = None\<rparr>"

record Company =
  co_id :: string
  co_user :: string
  co_name :: string
  co_emailSettings :: EmailSettings
  co_senderName :: string
  co_isActive :: bool

text \<open>The authenticated request: the caller, the client address and the user agent.\<close>

record Req =
  rq_userId :: string
  rq_ip :: "string option"
  rq_userAgent :: "string option"

record MailOptions =
  mo_from :: string
  mo_to :: "string option"
  mo_cc :: "string option"
  mo_subject :: "string option"
  mo_html :: "string option"
  mo_text :: "string option"

text \<open>
  What \<^verbatim>\<open>sendMail\<close> of the SMTP library gives back: an error with an optional code and
  a message, or the message identifier and the raw response of the server.
\<close>

record SmtpError =
  err_code :: "string option"
  err_message :: string

record SendInfo =
  info_messageId :: string
  info_response :: string

text \<open>
  The SMTP library is a parameter of every route: \<open>sendMail opts i m\<close> is the outcome of
  the \<open>i\<close>-th call of \<^verbatim>\<open>sendMail\<close> on a transporter created from \<open>opts\<close> for the
  message \<open>m\<close>; the factory of the library (called as \<^verbatim>\<open>createTransporter\<close> in
  routes/emails.js and as \<^verbatim>\<open>createTransport\<close> in server.js and emailServer.js) is
  taken to return a transporter for every options object. So is the storage layer:
  \<open>persist e\<close> is \<open>Some msg\<close> when saving the document \<open>e\<close> is rejected with the message
  \<open>msg\<close> (a validation or storage error); queries are taken to succeed.
\<close>

type_synonym transport = "transport_options \<Rightarrow> nat \<Rightarrow> MailOptions \<Rightarrow> SmtpError + SendInfo"

type_synonym persist = "Email \<Rightarrow> string option"

text \<open>What a request does, in order, besides answering.\<close>

datatype event = Constructed Email | SendMailCall MailOptions | Saved Email | Pause nat

record ServerState =
  st_ledger :: "Email list"
  st_clock :: nat
  st_events :: "event list"

datatype 'a response = HttpError nat string "string option" | HttpOk 'a

text \<open>
  The outcome of a handler: a response, or an exception that leaves the handler, so that
  no response is written.
\<close>

datatype 'a outcome = Responded "'a response" | Unhandled string

text \<open>A string taken from the request body is truthy when it is present and not empty.\<close>

definition truthy :: "string option \<Rightarrow> bool" where
  "truthy v = (case v of None \<Rightarrow> False | Some s \<Rightarrow> s \<noteq> [])"

definition str_of :: "string option \<Rightarrow> string" where
  "str_of v = (case v of None \<Rightarrow> [] | Some s \<Rightarrow> s)"

definition log_event :: "event \<Rightarrow> ServerState \<Rightarrow> ServerState" where
  "log_event e st = st\<lparr>st_events := st_events st @ [e]\<rparr>"

text \<open>A successful \<^verbatim>\<open>save()\<close> of a new document.\<close>

definition save_email :: "Email \<Rightarrow> ServerState \<Rightarrow> ServerState" where
  "save_email e st =
     (let saved = e\<lparr>em_createdAt := Some (st_clock st)\<rparr>
      in st\<lparr>st_ledger := st_ledger st @ [saved], st_events := st_events st @ [Saved saved]\<rparr>)"


text \<open>\<^verbatim>\<open>Company.findOne({ _id: companyId, user: req.user.userId, isActive: true })\<close>.\<close>

definition find_active_company :: "Company list \<Rightarrow> string \<Rightarrow> string \<Rightarrow> Company option" where
  "find_active_company companies companyId userId =
     find (\<lambda>c. co_id c = companyId \<and> co_user c = userId \<and> co_isActive c) companies"

definition from_header :: "Company \<Rightarrow> string" where
  "from_header company =
     co_senderName company @ '' <'' @ es_email (co_emailSettings company) @ ''>''"

subsection \<open>Sending one email: \<^verbatim>\<open>POST /send\<close>\<close>

record SendBody =
  sb_companyId :: "string option"
  sb_to :: "string option"
  sb_cc :: "string option"
  sb_subject :: "string option"
  sb_htmlContent :: "string option"
  sb_textContent :: "string option"
  sb_campaignName :: "string option"

record SendReply =
  sr_email :: Email
  sr_messageId :: string

text \<open>
  The handler of \<^verbatim>\<open>POST /send\<close>. The constant \<^verbatim>\<open>emailRecord\<close> is declared inside the
  \<^verbatim>\<open>try\<close> block, so the \<^verbatim>\<open>catch\<close> block, which logs the error and then reads
  \<^verbatim>\<open>emailRecord\<close>, raises a ReferenceError before it saves or answers anything.
\<close>

definition send_catch :: "ServerState \<Rightarrow> ServerState \<times> SendReply outcome" where
  "send_catch st = (st, Unhandled ''ReferenceError: emailRecord is not defined'')"

text \<open>The part of the handler after the transporter has been created.\<close>

definition send_dispatch ::
  "transport \<Rightarrow> persist \<Rightarrow> Company \<Rightarrow> SendBody \<Rightarrow> Email \<Rightarrow> transport_options \<Rightarrow> ServerState
     \<Rightarrow> ServerState \<times> SendReply outcome" where
  "send_dispatch sendMail persist company body emailRecord opts st1 =
     (let mailOptions =
            \<lparr>mo_from = from_header company, mo_to = sb_to body, mo_cc = None,
             mo_subject = sb_subject body, mo_html = sb_htmlContent body,
             mo_text = Some (if truthy (sb_textContent body)
                             then str_of (sb_textContent body)
                             else strip_tags (str_of (sb_htmlContent body)))\<rparr>;
          st2 = log_event (SendMailCall mailOptions) st1
      in case sendMail opts 0 mailOptions of
           Inl err \<Rightarrow> send_catch st2
         | Inr info \<Rightarrow>
             (let sent = emailRecord\<lparr>em_status := Sent,
                           em_sentAt := Some (st_clock st2),
                           em_messageId := Some (js_trim (info_messageId info))\<rparr>
              in case persist sent of
                   Some msg \<Rightarrow> send_catch st2
                 | None \<Rightarrow>
                     (save_email sent st2,
                      Responded (HttpOk
                        \<lparr>sr_email = sent\<lparr>em_createdAt := Some (st_clock st2)\<rparr>,
                         sr_messageId = info_messageId info\<rparr>))))"

definition send_email ::
  "transport \<Rightarrow> persist \<Rightarrow> Company list \<Rightarrow> Req \<Rightarrow> SendBody \<Rightarrow> ServerState
     \<Rightarrow> ServerState \<times> SendReply outcome" where
  "send_email sendMail persist companies req body st =
     (if \<not> truthy (sb_companyId body) \<or> \<not> truthy (sb_to body) \<or> \<not> truthy (sb_subject body)
         \<or> \<not> truthy (sb_htmlContent body)
      then (st, Responded (HttpError 400
              ''Company ID, recipient email, subject, and HTML content are required'' None))
      else case find_active_company companies (str_of (sb_companyId body)) (rq_userId req) of
        None \<Rightarrow> (st, Responded (HttpError 404 ''Company not found'' None))
      | Some company \<Rightarrow>
          (let emailRecord = new_Email (rq_userId req) (str_of (sb_companyId body))
                 (str_of (sb_to body)) (str_of (sb_subject body)) (str_of (sb_htmlContent body))
                 (sb_textContent body) None None
                 \<lparr>md_ipAddress = rq_ip req, md_userAgent = rq_userAgent req,
                  md_campaignName = sb_campaignName body\<rparr>;
               st1 = log_event (Constructed emailRecord) st
           in case routes_transport_options (co_emailSettings company) of
                Inl msg \<Rightarrow> (st1, Responded (HttpError 400 msg None))
              | Inr opts \<Rightarrow> send_dispatch sendMail persist company body emailRecord opts st1))"

subsection \<open>Sending to a list of recipients: \<^verbatim>\<open>POST /send-bulk\<close>\<close>

















subsection \<open>The email history: \<^verbatim>\<open>GET /\<close>\<close>

text \<open>
  The query string: \<open>q_page\<close> and \<open>q_limit\<close> hold the integer a numeric parameter
  denotes and \<open>None\<close> when the parameter is missing; text that is not an integer is
  outside the model.
\<close>

record EmailQuery =
  q_page :: "int option"
  q_limit :: "int option"
  q_companyId :: "string option"
  q_status :: "string option"

record Pagination =
  pg_current :: int
  pg_total :: "int option"
  pg_hasNext :: bool
  pg_hasPrev :: bool

record EmailPage =
  ep_emails :: "Email list"
  ep_pagination :: Pagination

text \<open>
  The filter object: the caller always, the company and the status when the parameter
  is given.
\<close>

definition matches_filter :: "string \<Rightarrow> EmailQuery \<Rightarrow> Email \<Rightarrow> bool" where
  "matches_filter userId q e =
     (em_user e = userId
      \<and> (if truthy (q_companyId q) then em_company e = str_of (q_companyId q) else True)
      \<and> (if truthy (q_status q) then status_name (em_status e) = str_of (q_status q) else True))"

definition created :: "Email \<Rightarrow> nat" where
  "created e = (case em_createdAt e of None \<Rightarrow> 0 | Some t \<Rightarrow> t)"

text \<open>
  \<^verbatim>\<open>.sort({ createdAt: -1 })\<close>; documents created at the same time keep their storage
  order here.
\<close>

definition newest_first :: "Email list \<Rightarrow> Email list" where
  "newest_first es = sort_key (\<lambda>e. - int (created e)) es"

text \<open>
  \<^verbatim>\<open>.limit(n)\<close> of the database: zero means no limit, and a negative number limits to
  its absolute value.
\<close>

definition db_limit :: "int \<Rightarrow> 'a list \<Rightarrow> 'a list" where
  "db_limit l xs = (if l = 0 then xs else take (nat \<bar>l\<bar>) xs)"

text \<open>
  The handler. The database rejects a negative skip, which the handler answers with 500.
  \<^verbatim>\<open>Math.ceil(total / limit)\<close> is not a number for limit 0 (\<open>None\<close>). The company of a
  returned document is joined with its name by \<^verbatim>\<open>populate\<close>, which is left out.
\<close>

definition get_emails :: "Email list \<Rightarrow> Req \<Rightarrow> EmailQuery \<Rightarrow> EmailPage response" where
  "get_emails ledger req q =
     (let page = (case q_page q of None \<Rightarrow> 1 | Some p \<Rightarrow> p);
          limit = (case q_limit q of None \<Rightarrow> 20 | Some l \<Rightarrow> l);
          skip = (page - 1) * limit;
          matching = filter (matches_filter (rq_userId req) q) ledger;
          total = int (length matching)
      in if skip < 0 then HttpError 500 ''Failed to fetch emails'' None
         else (let emails = db_limit limit (drop (nat skip) (newest_first matching))
               in HttpOk \<lparr>ep_emails = emails,
                          ep_pagination =
                            \<lparr>pg_current = page,
                             pg_total = (if limit = 0 then None else Some (- ((- total) div limit))),
                             pg_hasNext = (skip + int (length emails) < total),
                             pg_hasPrev = (page > 1)\<rparr>\<rparr>))"

section \<open>The file-backed server (server.js)\<close>

text \<open>Decimal digits of a number, as \<^verbatim>\<open>Date.now().toString()\<close> prints them.\<close>

function show_nat :: "nat \<Rightarrow> string" where
  "show_nat n =
     (if n < 10 then [char_of (48 + n)]
      else show_nat (n div 10) @ [char_of (48 + n mod 10)])"
  by pat_completeness auto
termination
  by (relation "measure id") auto

declare show_nat.simps [simp del]

record DbMetadata =
  dm_ipAddress :: "string option"
  dm_userAgent :: "string option"
  dm_campaignName :: "string option"
  dm_smtpResponse :: string

text \<open>An element of \<^verbatim>\<open>db.emails\<close>, a plain object of the JSON file.\<close>

record DbEmail =
  de_id :: string
  de_user :: string
  de_company :: "string option"
  de_to :: "string option"
  de_cc :: "string option"
  de_subject :: "string option"
  de_htmlContent :: "string option"
  de_textContent :: "string option"
  de_status :: string
  de_sentAt :: nat
  de_messageId :: string
  de_metadata :: DbMetadata
  de_createdAt :: nat
  de_updatedAt :: nat

record DbState =
  db_emails :: "DbEmail list"
  db_clock :: nat

record DbEmailList =
  dl_emails :: "DbEmail list"
  dl_total :: nat

text \<open>
  \<^verbatim>\<open>GET /api/emails\<close>: the handler reads only \<^verbatim>\<open>companyId\<close> from the query, keeps the
  caller's emails (of that company, unless it is \<^verbatim>\<open>all\<close>), and sorts them by the time
  of sending, newest first; \<^verbatim>\<open>Array.prototype.sort\<close> is stable.
\<close>

definition server_get_emails :: "DbState \<Rightarrow> Req \<Rightarrow> EmailQuery \<Rightarrow> DbEmailList" where
  "server_get_emails db req q =
     (let byUser = filter (\<lambda>email. de_user email = rq_userId req) (db_emails db);
          filteredEmails =
            (if truthy (q_companyId q) \<and> q_companyId q \<noteq> Some ''all''
             then filter (\<lambda>email. de_company email = q_companyId q) byUser
             else byUser);
          sorted = sort_key (\<lambda>email. - int (de_sentAt email)) filteredEmails
      in \<lparr>dl_emails = sorted, dl_total = length sorted\<rparr>)"




section \<open>The email log of emailServer.js\<close>

subsection \<open>Sanitising\<close>

definition lower :: "char \<Rightarrow> char" where
  "lower c =
     (let n = (of_char c :: nat) in if 65 \<le> n \<and> n \<le> 90 then char_of (n + 32) else c)"

text \<open>The class \<^verbatim>\<open>\w\<close>: letters, digits and the underscore.\<close>

definition is_word :: "char \<Rightarrow> bool" where
  "is_word c =
     (let n = (of_char c :: nat)
      in (48 \<le> n \<and> n \<le> 57) \<or> (65 \<le> n \<and> n \<le> 90) \<or> (97 \<le> n \<and> n \<le> 122) \<or> n = 95)"

text \<open>The text starts with the given lower-case literal, letter case ignored.\<close>

definition ci_prefix :: "string \<Rightarrow> string \<Rightarrow> bool" where
  "ci_prefix lit s = (length lit \<le> length s \<and> map lower (take (length lit) s) = lit)"

text \<open>\<^verbatim>\<open>s.replace(/lit/gi, '')\<close> for a non-empty literal.\<close>

fun remove_ci :: "string \<Rightarrow> string \<Rightarrow> string" where
  "remove_ci lit [] = []"
| "remove_ci lit (c # cs) =
     (if lit \<noteq> [] \<and> ci_prefix lit (c # cs)
      then remove_ci lit (drop (length lit) (c # cs))
      else c # remove_ci lit cs)"

text \<open>
  The text after a match of \<^verbatim>\<open>/on\w+\s*=/i\<close> at the start of the argument, if there is
  one: the letters \<^verbatim>\<open>on\<close>, the longest run of word characters, which must not be
  empty, white space, and an equals sign.
\<close>

definition after_handler :: "string \<Rightarrow> string option" where
  "after_handler s =
     (if ci_prefix ''on'' s then
        (let r = drop 2 s;
             r1 = dropWhile is_word r;
             r2 = dropWhile is_space r1
         in if takeWhile is_word r \<noteq> [] \<and> take 1 r2 = ''='' then Some (drop 1 r2) else None)
      else None)"

text \<open>\<^verbatim>\<open>s.replace(/on\w+\s*=/gi, '')\<close>.\<close>

function remove_handlers :: "string \<Rightarrow> string" where
  "remove_handlers [] = []"
| "remove_handlers (c # cs) =
     (case after_handler (c # cs) of
        Some r \<Rightarrow> remove_handlers r
      | None \<Rightarrow> c # remove_handlers cs)"
  by pat_completeness auto
termination
proof (relation "measure length")
  show "wf (measure length)" by simp
next
  fix c :: char and cs r :: string
  assume a: "after_handler (c # cs) = Some r"
  let ?s = "c # cs"
  have l1: "length (dropWhile is_word (drop 2 ?s)) \<le> length (drop 2 ?s)"
    by (rule length_dropWhile_le)
  have l2: "length (dropWhile is_space (dropWhile is_word (drop 2 ?s)))
              \<le> length (dropWhile is_word (drop 2 ?s))"
    by (rule length_dropWhile_le)
  from a have p: "ci_prefix ''on'' ?s"
    and r: "r = drop 1 (dropWhile is_space (dropWhile is_word (drop 2 ?s)))"
    by (auto simp: after_handler_def Let_def split: if_splits)
  from p have "2 \<le> length ?s" by (simp add: ci_prefix_def)
  with l1 l2 r have "length r < length ?s" by simp
  then show "(r, c # cs) \<in> measure length" by simp
next
  fix c :: char and cs :: string
  show "(cs, c # cs) \<in> measure length" by simp
qed

definition sanitizeInput :: "string \<Rightarrow> string" where
  "sanitizeInput input =
     js_trim (remove_ci ''data:text/html'' (remove_ci ''vbscript:''
       (remove_handlers (remove_ci ''javascript:'' input))))"

text \<open>
  The text after a match of the script pattern
  \<^verbatim>\<open>/<script\b[^<]*(?:(?!<\/script>)<[^<]*)*<\/script>/i\<close> at the start of the argument,
  if there is one: an opening \<^verbatim>\<open><script\<close> at a word boundary, up to and including
  the first closing \<^verbatim>\<open></script>\<close>.
\<close>

fun after_closing :: "string \<Rightarrow> string option" where
  "after_closing [] = None"
| "after_closing (c # cs) =
     (if ci_prefix ''</script>'' (c # cs) then Some (drop 9 (c # cs)) else after_closing cs)"

definition after_script :: "string \<Rightarrow> string option" where
  "after_script s =
     (if ci_prefix ''<script'' s \<and> \<not> (case drop 7 s of [] \<Rightarrow> False | d # _ \<Rightarrow> is_word d)
      then after_closing (drop 7 s) else None)"

function remove_scripts :: "string \<Rightarrow> string" where
  "remove_scripts [] = []"
| "remove_scripts (c # cs) =
     (case after_script (c # cs) of
        Some r \<Rightarrow> remove_scripts r
      | None \<Rightarrow> c # remove_scripts cs)"
  by pat_completeness auto
termination
proof (relation "measure length")
  show "wf (measure length)" by simp
next
  fix c :: char and cs r :: string
  assume a: "after_script (c # cs) = Some r"
  have closing: "after_closing s = Some t \<Longrightarrow> length t < length s" for s t
    by (induction s) (auto split: if_splits)
  from a have "after_closing (drop 7 (c # cs)) = Some r" and "ci_prefix ''<script'' (c # cs)"
    by (auto simp: after_script_def split: if_splits)
  then have "length r < length (drop 7 (c # cs))" and "7 \<le> length (c # cs)"
    by (auto dest: closing simp: ci_prefix_def)
  then have "length r < length (c # cs)" by simp
  then show "(r, c # cs) \<in> measure length" by simp
next
  fix c :: char and cs :: string
  show "(cs, c # cs) \<in> measure length" by simp
qed

definition sanitizeEmailContent :: "string \<Rightarrow> string" where
  "sanitizeEmailContent content =
     js_trim (remove_ci ''data:text/html'' (remove_ci ''vbscript:''
       (remove_handlers (remove_ci ''javascript:'' (remove_scripts content)))))"

subsection \<open>The log file\<close>

record LogEmailData =
  led_emailType :: string
  led_from :: string
  led_password :: "string option"
  led_to :: string
  led_cc :: "string option"
  led_subject :: string
  led_content :: string
  led_domain :: string
  led_smtpPort :: string

record LogSmtpConfig =
  lsc_host :: string
  lsc_port :: int
  lsc_secure :: bool
  lsc_emailType :: string

record LogEntry =
  le_id :: string
  le_timestamp :: nat
  le_status :: string
  le_emailData :: LogEmailData
  le_smtpConfig :: LogSmtpConfig
  le_messageId :: "string option"
  le_error :: "string option"

record LogsData =
  ld_lastUpdated :: nat
  ld_totalEmails :: nat
  ld_successfulEmails :: nat
  ld_failedEmails :: nat
  ld_pendingEmails :: nat
  ld_logs :: "LogEntry list"

text \<open>
  The file \<^verbatim>\<open>email-logs.json\<close>: missing, present but not readable as JSON, or holding
  a store; and whether writing it succeeds.
\<close>

datatype log_file = NoFile | Unreadable | Stored LogsData

record LogFs =
  fs_file :: log_file
  fs_writable :: bool

text \<open>\<^verbatim>\<open>loadLogs\<close>: \<open>None\<close> is the \<^verbatim>\<open>null\<close> returned when reading raises.\<close>

definition loadLogs :: "nat \<Rightarrow> LogFs \<Rightarrow> LogsData option" where
  "loadLogs now fs =
     (case fs_file fs of
        Stored d \<Rightarrow> Some d
      | Unreadable \<Rightarrow> None
      | NoFile \<Rightarrow>
          Some \<lparr>ld_lastUpdated = now, ld_totalEmails = 0, ld_successfulEmails = 0,
                ld_failedEmails = 0, ld_pendingEmails = 0, ld_logs = []\<rparr>)"

text \<open>\<^verbatim>\<open>saveLogs\<close>: \<open>Inl\<close> is the error raised when the file cannot be written.\<close>

definition saveLogs :: "nat \<Rightarrow> LogsData \<Rightarrow> LogFs \<Rightarrow> string + LogFs" where
  "saveLogs now logsData fs =
     (if fs_writable fs then Inr (fs\<lparr>fs_file := Stored (logsData\<lparr>ld_lastUpdated := now\<rparr>)\<rparr>)
      else Inl ''Failed to save logs'')"

text \<open>The two objects of the body of \<^verbatim>\<open>POST /api/send-email\<close>.\<close>

record ReqEmailConfig =
  rc_host :: "string option"
  rc_port :: "int option"
  rc_secure :: "bool option"
  rc_auth :: "Auth option"

record ReqEmailData =
  rd_emailType :: "string option"
  rd_from :: "string option"
  rd_password :: "string option"
  rd_to :: "string option"
  rd_cc :: "string option"
  rd_subject :: "string option"
  rd_content :: "string option"
  rd_domain :: "string option"
  rd_smtpPort :: "string option"

definition count_status :: "string \<Rightarrow> LogEntry list \<Rightarrow> nat" where
  "count_status s logs = length (filter (\<lambda>log. le_status log = s) logs)"

text \<open>The object \<^verbatim>\<open>logEntry\<close> that \<^verbatim>\<open>logEmailAttempt\<close> builds.\<close>

definition new_log_entry :: "nat \<Rightarrow> string \<Rightarrow> ReqEmailConfig \<Rightarrow> ReqEmailData \<Rightarrow> LogEntry" where
  "new_log_entry now logId emailConfig emailData =
     \<lparr>le_id = logId, le_timestamp = now, le_status = ''pending'',
      le_emailData =
        \<lparr>led_emailType = sanitizeInput
           (if truthy (rd_emailType emailData) then str_of (rd_emailType emailData) else ''unknown''),
         led_from = sanitizeInput (str_of (rd_from emailData)),
         led_password = rd_password emailData,
         led_to = sanitizeInput (str_of (rd_to emailData)),
         led_cc = (if truthy (rd_cc emailData) then Some (sanitizeInput (str_of (rd_cc emailData)))
                   else None),
         led_subject = sanitizeInput (str_of (rd_subject emailData)),
         led_content = sanitizeEmailContent (str_of (rd_content emailData)),
         led_domain = sanitizeInput (str_of (rd_domain emailData)),
         led_smtpPort = sanitizeInput (str_of (rd_smtpPort emailData))\<rparr>,
      le_smtpConfig =
        \<lparr>lsc_host = sanitizeInput (str_of (rc_host emailConfig)),
         lsc_port = (case rc_port emailConfig of None \<Rightarrow> 587
                     | Some p \<Rightarrow> if p = 0 then 587 else p),
         lsc_secure = (rc_secure emailConfig = Some True),
         lsc_emailType = sanitizeInput
           (if truthy (rd_emailType emailData) then str_of (rd_emailType emailData) else ''unknown'')\<rparr>,
      le_messageId = None, le_error = None\<rparr>"

text \<open>
  \<^verbatim>\<open>logEmailAttempt\<close>; \<open>logId\<close> is the key that \<^verbatim>\<open>generateLogId\<close> makes from the time
  and random bytes. \<open>Inl\<close> is a raised error, which leaves the file as it was.
\<close>

definition logEmailAttempt ::
  "nat \<Rightarrow> string \<Rightarrow> ReqEmailConfig option \<Rightarrow> ReqEmailData option \<Rightarrow> LogFs \<Rightarrow> string + (string \<times> LogFs)" where
  "logEmailAttempt now logId emailConfig emailData fs =
     (case (emailConfig, emailData) of
        (Some cfg, Some dat) \<Rightarrow>
          (case loadLogs now fs of
             None \<Rightarrow> Inl ''Failed to load logs''
           | Some logsData \<Rightarrow>
               (let logEntry = new_log_entry now logId cfg dat;
                    logs = ld_logs logsData @ [logEntry];
                    updated = logsData\<lparr>ld_logs := logs, ld_totalEmails := length logs,
                                ld_pendingEmails := count_status ''pending'' logs\<rparr>
                in case saveLogs now updated fs of
                     Inl msg \<Rightarrow> Inl msg
                   | Inr fs1 \<Rightarrow> Inr (logId, fs1)))
      | _ \<Rightarrow> Inl ''Invalid email configuration or data'')"

text \<open>The first element that satisfies the test is replaced, as \<^verbatim>\<open>find\<close> selects it.\<close>

fun update_first :: "('a \<Rightarrow> bool) \<Rightarrow> ('a \<Rightarrow> 'a) \<Rightarrow> 'a list \<Rightarrow> 'a list" where
  "update_first P f [] = []"
| "update_first P f (x # xs) = (if P x then f x # xs else x # update_first P f xs)"

text \<open>
  The three assignments to the entry found: the status always, the message identifier
  and the error text when the argument is given and not empty.
\<close>

definition finalize_entry :: "string \<Rightarrow> string option \<Rightarrow> string option \<Rightarrow> LogEntry \<Rightarrow> LogEntry" where
  "finalize_entry status messageId error logEntry =
     logEntry\<lparr>le_status := status,
       le_messageId := (if truthy messageId then Some (sanitizeInput (str_of messageId))
                        else le_messageId logEntry),
       le_error := (if truthy error then Some (sanitizeInput (str_of error))
                    else le_error logEntry)\<rparr>"

text \<open>
  \<^verbatim>\<open>updateLogStatus(logId, status, messageId = null, error = null)\<close>. Nothing is written
  when the store cannot be loaded or holds no entry with the key.
\<close>

definition updateLogStatus ::
  "nat \<Rightarrow> string \<Rightarrow> string \<Rightarrow> string option \<Rightarrow> string option \<Rightarrow> LogFs \<Rightarrow> string + LogFs" where
  "updateLogStatus now logId status messageId error fs =
     (case loadLogs now fs of
        None \<Rightarrow> Inr fs
      | Some logsData \<Rightarrow>
          (case find (\<lambda>log. le_id log = logId) (ld_logs logsData) of
             None \<Rightarrow> Inr fs
           | Some found \<Rightarrow>
               (let logs = update_first (\<lambda>log. le_id log = logId)
                             (finalize_entry status messageId error) (ld_logs logsData);
                    updated = logsData\<lparr>ld_logs := logs,
                                ld_successfulEmails := count_status ''success'' logs,
                                ld_failedEmails := count_status ''failed'' logs,
                                ld_pendingEmails := count_status ''pending'' logs\<rparr>
                in saveLogs now updated fs)))"

subsection \<open>The error answer of \<^verbatim>\<open>POST /api/send-email\<close>\<close>



section \<open>Notions used to state the properties\<close>















text \<open>The counters of the log store agree with its list of entries.\<close>

definition counters_consistent :: "LogsData \<Rightarrow> bool" where
  "counters_consistent d =
     (ld_totalEmails d = length (ld_logs d)
      \<and> ld_pendingEmails d = count_status ''pending'' (ld_logs d)
      \<and> ld_successfulEmails d = count_status ''success'' (ld_logs d)
      \<and> ld_failedEmails d = count_status ''failed'' (ld_logs d))"

definition persisted :: "LogFs \<Rightarrow> LogsData option" where
  "persisted fs = (case fs_file fs of Stored d \<Rightarrow> Some d | _ \<Rightarrow> None)"

text \<open>The entries of the log file, and their keys; a missing file has none.\<close>

definition log_entries :: "LogFs \<Rightarrow> LogEntry list" where
  "log_entries fs = (case fs_file fs of Stored d \<Rightarrow> ld_logs d | _ \<Rightarrow> [])"

definition log_ids :: "LogFs \<Rightarrow> string list" where
  "log_ids fs = map le_id (log_entries fs)"

text \<open>The store after an entry has been finalised and the counters recomputed.\<close>

definition finalized ::
  "nat \<Rightarrow> string \<Rightarrow> string \<Rightarrow> string option \<Rightarrow> string option \<Rightarrow> LogsData \<Rightarrow> LogsData" where
  "finalized now logId status messageId error d =
     (let logs = update_first (\<lambda>log. le_id log = logId)
                   (finalize_entry status messageId error) (ld_logs d)
      in d\<lparr>ld_logs := logs,
           ld_successfulEmails := count_status ''success'' logs,
           ld_failedEmails := count_status ''failed'' logs,
           ld_pendingEmails := count_status ''pending'' logs,
           ld_lastUpdated := now\<rparr>)"

section \<open>Example data\<close>


definition ex_req :: Req where
  "ex_req = \<lparr>rq_userId = ''u1'', rq_ip = Some ''203.0.113.7'', rq_userAgent = Some ''curl''\<rparr>"








text \<open>A ledger of 25 records of one user, created at times 1 to 25, and a record of another.\<close>

definition ex_email :: "string \<Rightarrow> nat \<Rightarrow> Email" where
  "ex_email user t =
     \<lparr>em_user = user, em_company = ''c1'', em_to = ''a@x.com'', em_subject = ''Hello'',
      em_htmlContent = ''<p>Hello</p>'', em_textContent = None, em_status = Sent,
      em_sentAt = Some t, em_errorMessage = None, em_messageId = Some ''<1@acme.test>'',
      em_metadata = \<lparr>md_ipAddress = None, md_userAgent = None, md_campaignName = None\<rparr>,
      em_createdAt = Some t\<rparr>"

definition ex_ledger :: "Email list" where
  "ex_ledger = ex_email ''u2'' 30 # map (ex_email ''u1'') [1..<26]"

definition ex_query :: EmailQuery where
  "ex_query = \<lparr>q_page = Some 2, q_limit = Some 20, q_companyId = None, q_status = None\<rparr>"

definition ex_db_email :: "nat \<Rightarrow> DbEmail" where
  "ex_db_email t =
     \<lparr>de_id = show_nat t, de_user = ''u1'', de_company = Some ''c1'', de_to = Some ''a@x.com'',
      de_cc = None, de_subject = Some ''Hello'', de_htmlContent = Some ''<p>Hello</p>'',
      de_textContent = None, de_status = ''sent'', de_sentAt = t,
      de_messageId = ''<1@acme.test>'',
      de_metadata = \<lparr>dm_ipAddress = None, dm_userAgent = None, dm_campaignName = None,
                      dm_smtpResponse = ''250 OK''\<rparr>,
      de_createdAt = t, de_updatedAt = t\<rparr>"

definition ex_db25 :: DbState where
  "ex_db25 = \<lparr>db_emails = map ex_db_email [1..<26], db_clock = 100\<rparr>"

text \<open>A log file with one successful and one pending entry, and a request body.\<close>

definition ex_cfg :: ReqEmailConfig where
  "ex_cfg =
     \<lparr>rc_host = Some ''mail.example.com'', rc_port = Some 587, rc_secure = Some False,
      rc_auth = Some \<lparr>auth_user = ''me@example.com'', auth_pass = ''pw''\<rparr>\<rparr>"

definition ex_dat :: ReqEmailData where
  "ex_dat =
     \<lparr>rd_emailType = Some ''website'', rd_from = Some ''me@example.com'', rd_password = Some ''pw'',
      rd_to = Some ''you@example.com'', rd_cc = None, rd_subject = Some ''Hello'',
      rd_content = Some ''<p>Hi</p>'', rd_domain = Some ''mail.example.com'',
      rd_smtpPort = Some ''587''\<rparr>"

definition ex_log_entry :: "string \<Rightarrow> string \<Rightarrow> LogEntry" where
  "ex_log_entry k s = (new_log_entry 1 k ex_cfg ex_dat)\<lparr>le_status := s\<rparr>"

definition ex_logs :: LogsData where
  "ex_logs =
     \<lparr>ld_lastUpdated = 2, ld_totalEmails = 2, ld_successfulEmails = 1, ld_failedEmails = 0,
      ld_pendingEmails = 1,
      ld_logs = [ex_log_entry ''email_0'' ''success'', ex_log_entry ''email_1'' ''pending'']\<rparr>"

definition ex_fs :: LogFs where
  "ex_fs = \<lparr>fs_file = Stored ex_logs, fs_writable = True\<rparr>"


section \<open>Properties of the credential resolver\<close>

lemma parseInt_Nil: "parseInt [] = None"
  by (simp add: parseInt_def)

text \<open>
  C1 (as amended). The browser-side resolver \<open>getEmailConfig\<close>, for every email type
  other than gmail, fails when the SMTP domain is empty, when the port is empty, when the
  port does not parse to an integer, or when the parsed port lies outside 1..65535;
  otherwise it returns a configuration with exactly that domain as host and the parsed
  port. The two server-side builders do not validate a custom company: they return
  transport options that carry the stored host and port as they are.
\<close>

theorem custom_resolver_validation:
  "(ed_emailType d \<noteq> ''gmail'' \<longrightarrow>
      ((ed_domain d = [] \<or> ed_smtpPort d = [] \<or> parseInt (ed_smtpPort d) = None \<or>
        (\<exists>p. parseInt (ed_smtpPort d) = Some p \<and> (p < 1 \<or> 65535 < p)))
         \<longrightarrow> isl (getEmailConfig d)) \<and>
      (\<forall>p. ed_domain d \<noteq> [] \<and> parseInt (ed_smtpPort d) = Some p \<and> 1 \<le> p \<and> p \<le> 65535
         \<longrightarrow> (\<exists>cfg. getEmailConfig d = Inr cfg \<and> ec_host cfg = ed_domain d \<and> ec_port cfg = p)))
   \<and> (es_type s = ''custom'' \<longrightarrow>
        (\<exists>r. routes_transport_options s = Inr (SmtpTransport r) \<and>
              so_host r = es_smtpHost s \<and> so_port r = es_smtpPort s) \<and>
        (\<exists>r. server_transport_options s = Inr (SmtpTransport r) \<and>
              so_host r = es_smtpHost s \<and> so_port r = es_smtpPort s))"
proof (intro conjI impI allI)
  assume "ed_emailType d \<noteq> ''gmail''"
    and "ed_domain d = [] \<or> ed_smtpPort d = [] \<or> parseInt (ed_smtpPort d) = None \<or>
         (\<exists>p. parseInt (ed_smtpPort d) = Some p \<and> (p < 1 \<or> 65535 < p))"
  then show "isl (getEmailConfig d)"
    by (auto simp: getEmailConfig_def split: option.splits)
next
  fix p
  assume g: "ed_emailType d \<noteq> ''gmail''"
    and v: "ed_domain d \<noteq> [] \<and> parseInt (ed_smtpPort d) = Some p \<and> 1 \<le> p \<and> p \<le> 65535"
  from v have "ed_smtpPort d \<noteq> []"
    using parseInt_Nil by auto
  with g v show "\<exists>cfg. getEmailConfig d = Inr cfg \<and> ec_host cfg = ed_domain d \<and> ec_port cfg = p"
    by (simp add: getEmailConfig_def)
next
  assume "es_type s = ''custom''"
  then show "\<exists>r. routes_transport_options s = Inr (SmtpTransport r) \<and>
              so_host r = es_smtpHost s \<and> so_port r = es_smtpPort s"
    by (simp add: routes_transport_options_def)
next
  assume "es_type s = ''custom''"
  then show "\<exists>r. server_transport_options s = Inr (SmtpTransport r) \<and>
              so_host r = es_smtpHost s \<and> so_port r = es_smtpPort s"
    by (simp add: server_transport_options_def)
qed

theorem custom_resolver_validation_witness:
  "isl (getEmailConfig \<lparr>ed_emailType = ''website'', ed_from = ''me@example.com'', ed_password = ''pw'',
         ed_domain = ''mail.example.com'', ed_smtpPort = ''70000'', ed_to = ''you@example.com'',
         ed_cc = [], ed_subject = ''Hello'', ed_content = ''<p>Hi</p>''\<rparr>)
   \<and> (\<exists>cfg. getEmailConfig \<lparr>ed_emailType = ''website'', ed_from = ''me@example.com'', ed_password = ''pw'',
         ed_domain = ''mail.example.com'', ed_smtpPort = ''2525'', ed_to = ''you@example.com'',
         ed_cc = [], ed_subject = ''Hello'', ed_content = ''<p>Hi</p>''\<rparr> = Inr cfg
        \<and> ec_host cfg = ''mail.example.com'' \<and> ec_port cfg = 2525)
   \<and> (\<exists>r. routes_transport_options \<lparr>es_email = ''me@example.com'', es_password = ''pw'',
          es_type = ''custom'', es_smtpHost = Some ''mail.example.com'', es_smtpPort = Some 2525,
          es_useSSL = Some True, es_useTLS = Some True\<rparr> = Inr (SmtpTransport r)
        \<and> so_host r = Some ''mail.example.com'' \<and> so_port r = Some 2525)"
proof -
  let ?s = "\<lparr>es_email = ''me@example.com'', es_password = ''pw'',
          es_type = ''custom'', es_smtpHost = Some ''mail.example.com'', es_smtpPort = Some 2525,
          es_useSSL = Some True, es_useTLS = Some True\<rparr>"
  let ?bad = "\<lparr>ed_emailType = ''website'', ed_from = ''me@example.com'', ed_password = ''pw'',
         ed_domain = ''mail.example.com'', ed_smtpPort = ''70000'', ed_to = ''you@example.com'',
         ed_cc = [], ed_subject = ''Hello'', ed_content = ''<p>Hi</p>''\<rparr>"
  let ?good = "\<lparr>ed_emailType = ''website'', ed_from = ''me@example.com'', ed_password = ''pw'',
         ed_domain = ''mail.example.com'', ed_smtpPort = ''2525'', ed_to = ''you@example.com'',
         ed_cc = [], ed_subject = ''Hello'', ed_content = ''<p>Hi</p>''\<rparr>"
  have a: "parseInt ''70000'' = Some 70000" and b: "parseInt ''2525'' = Some 2525"
    by (simp_all add: parseInt_def digit_of_def is_space_def)
  show ?thesis
    using custom_resolver_validation [of ?bad ?s] custom_resolver_validation [of ?good ?s] a b
    by simp
qed

text \<open>
  C1 as stated fails on the server: for a custom company stored without host and port,
  server.js builds transport options instead of rejecting the settings.
\<close>

theorem custom_resolver_counterexample:
  "server_transport_options \<lparr>es_email = ''me@example.com'', es_password = ''pw'',
      es_type = ''custom'', es_smtpHost = None, es_smtpPort = None,
      es_useSSL = None, es_useTLS = None\<rparr>
   = Inr (SmtpTransport \<lparr>so_host = None, so_port = None, so_secure = Some False,
        so_auth = \<lparr>auth_user = ''me@example.com'', auth_pass = ''pw''\<rparr>,
        so_tls = NoTls, so_timeouts = Some (10000, 10000, 10000)\<rparr>)"
  by (simp add: server_transport_options_def settings_auth_def)

text \<open>
  C3 (as amended). For a custom company, routes/emails.js hands the transport the stored
  host and port, \<open>secure\<close> equal to the useSSL flag alone, the account email and secret
  as credentials, and certificate validation equal to the useTLS flag; server.js hands it
  the stored host and port, \<open>secure\<close> true exactly for port 465, the same credentials,
  no certificate option and three timeouts of ten seconds. The browser-side resolver sets
  \<open>secure\<close> exactly for port 465 and uses the sender address and secret as credentials.
\<close>

theorem custom_profile_fields:
  "(es_type s = ''custom'' \<longrightarrow>
      routes_transport_options s =
        Inr (SmtpTransport \<lparr>so_host = es_smtpHost s, so_port = es_smtpPort s,
               so_secure = es_useSSL s,
               so_auth = \<lparr>auth_user = es_email s, auth_pass = es_password s\<rparr>,
               so_tls = RejectUnauthorized (es_useTLS s), so_timeouts = None\<rparr>) \<and>
      server_transport_options s =
        Inr (SmtpTransport \<lparr>so_host = es_smtpHost s, so_port = es_smtpPort s,
               so_secure = Some (es_smtpPort s = Some 465),
               so_auth = \<lparr>auth_user = es_email s, auth_pass = es_password s\<rparr>,
               so_tls = NoTls, so_timeouts = Some (10000, 10000, 10000)\<rparr>))
   \<and> (ed_emailType d \<noteq> ''gmail'' \<and> getEmailConfig d = Inr cfg \<longrightarrow>
        ec_secure cfg = (ec_port cfg = 465) \<and>
        ec_auth cfg = \<lparr>auth_user = ed_from d, auth_pass = ed_password d\<rparr>)"
  by (auto simp: routes_transport_options_def server_transport_options_def settings_auth_def
        getEmailConfig_def split: if_splits option.splits)

theorem custom_profile_fields_witness:
  "routes_transport_options \<lparr>es_email = ''me@example.com'', es_password = ''pw'',
      es_type = ''custom'', es_smtpHost = Some ''mail.example.com'', es_smtpPort = Some 465,
      es_useSSL = Some True, es_useTLS = Some False\<rparr> =
     Inr (SmtpTransport \<lparr>so_host = Some ''mail.example.com'', so_port = Some 465,
            so_secure = Some True,
            so_auth = \<lparr>auth_user = ''me@example.com'', auth_pass = ''pw''\<rparr>,
            so_tls = RejectUnauthorized (Some False), so_timeouts = None\<rparr>)
   \<and> server_transport_options \<lparr>es_email = ''me@example.com'', es_password = ''pw'',
      es_type = ''custom'', es_smtpHost = Some ''mail.example.com'', es_smtpPort = Some 465,
      es_useSSL = Some True, es_useTLS = Some False\<rparr> =
     Inr (SmtpTransport \<lparr>so_host = Some ''mail.example.com'', so_port = Some 465,
            so_secure = Some True,
            so_auth = \<lparr>auth_user = ''me@example.com'', auth_pass = ''pw''\<rparr>,
            so_tls = NoTls, so_timeouts = Some (10000, 10000, 10000)\<rparr>)
   \<and> getEmailConfig \<lparr>ed_emailType = ''website'', ed_from = ''me@example.com'', ed_password = ''pw'',
         ed_domain = ''mail.example.com'', ed_smtpPort = ''465'', ed_to = ''you@example.com'',
         ed_cc = [], ed_subject = ''Hello'', ed_content = ''<p>Hi</p>''\<rparr> =
       Inr \<lparr>ec_host = ''mail.example.com'', ec_port = 465, ec_secure = True,
            ec_auth = \<lparr>auth_user = ''me@example.com'', auth_pass = ''pw''\<rparr>\<rparr>"
proof -
  let ?s = "\<lparr>es_email = ''me@example.com'', es_password = ''pw'',
      es_type = ''custom'', es_smtpHost = Some ''mail.example.com'', es_smtpPort = Some 465,
      es_useSSL = Some True, es_useTLS = Some False\<rparr>"
  let ?d = "\<lparr>ed_emailType = ''website'', ed_from = ''me@example.com'', ed_password = ''pw'',
         ed_domain = ''mail.example.com'', ed_smtpPort = ''465'', ed_to = ''you@example.com'',
         ed_cc = [], ed_subject = ''Hello'', ed_content = ''<p>Hi</p>''\<rparr>"
  let ?cfg = "\<lparr>ec_host = ''mail.example.com'', ec_port = 465, ec_secure = True,
            ec_auth = \<lparr>auth_user = ''me@example.com'', auth_pass = ''pw''\<rparr>\<rparr>"
  have p: "parseInt ''465'' = Some 465"
    by (simp add: parseInt_def digit_of_def is_space_def)
  have g: "getEmailConfig ?d = Inr ?cfg"
    by (simp add: getEmailConfig_def p)
  show ?thesis
    using custom_profile_fields [of ?s ?d ?cfg] g by simp
qed

text \<open>
  C3 as stated fails: with the useSSL flag off and port 465, routes/emails.js passes
  \<open>secure = false\<close>; with the flag on and port 587, server.js passes \<open>secure = false\<close>
  and no certificate option.
\<close>

theorem custom_profile_counterexample:
  "routes_transport_options \<lparr>es_email = ''me@example.com'', es_password = ''pw'',
      es_type = ''custom'', es_smtpHost = Some ''mail.example.com'', es_smtpPort = Some 465,
      es_useSSL = Some False, es_useTLS = Some True\<rparr> =
     Inr (SmtpTransport \<lparr>so_host = Some ''mail.example.com'', so_port = Some 465,
            so_secure = Some False,
            so_auth = \<lparr>auth_user = ''me@example.com'', auth_pass = ''pw''\<rparr>,
            so_tls = RejectUnauthorized (Some True), so_timeouts = None\<rparr>)
   \<and> server_transport_options \<lparr>es_email = ''me@example.com'', es_password = ''pw'',
      es_type = ''custom'', es_smtpHost = Some ''mail.example.com'', es_smtpPort = Some 587,
      es_useSSL = Some True, es_useTLS = Some True\<rparr> =
     Inr (SmtpTransport \<lparr>so_host = Some ''mail.example.com'', so_port = Some 587,
            so_secure = Some False,
            so_auth = \<lparr>auth_user = ''me@example.com'', auth_pass = ''pw''\<rparr>,
            so_tls = NoTls, so_timeouts = Some (10000, 10000, 10000)\<rparr>)"
  by (simp add: routes_transport_options_def server_transport_options_def settings_auth_def)

section \<open>Properties of the bulk campaign runner and of the ledger\<close>



































section \<open>Properties of the email log\<close>

lemmas log_defs = ex_fs_def ex_logs_def ex_log_entry_def new_log_entry_def

lemma length_update_first: "length (update_first P f xs) = length xs"
  by (induction xs) simp_all

lemma map_update_first: "(\<And>x. g (f x) = g x) \<Longrightarrow> map g (update_first P f xs) = map g xs"
  by (induction xs) simp_all

lemma update_first_idem:
  "(\<And>x. f (f x) = f x) \<Longrightarrow> (\<And>x. P (f x) = P x)
     \<Longrightarrow> update_first P f (update_first P f xs) = update_first P f xs"
  by (induction xs) simp_all

lemma find_None_ids: "(find (\<lambda>log. le_id log = k) logs = None) = (k \<notin> set (map le_id logs))"
  by (auto simp: find_None_iff)

lemma count_status_snoc:
  "count_status s (logs @ [e]) = count_status s logs + (if le_status e = s then 1 else 0)"
  by (simp add: count_status_def)

lemma finalize_entry_id: "le_id (finalize_entry status messageId error e) = le_id e"
  by (simp add: finalize_entry_def)

lemma finalize_entry_idem:
  "finalize_entry status messageId error (finalize_entry status messageId error e)
     = finalize_entry status messageId error e"
  by (simp add: finalize_entry_def)

lemma updateLogStatus_unknown:
  assumes "logId \<notin> set (log_ids fs)"
  shows "updateLogStatus now logId status messageId error fs = Inr fs"
proof (cases "fs_file fs")
  case NoFile
  then show ?thesis by (simp add: updateLogStatus_def loadLogs_def)
next
  case Unreadable
  then show ?thesis by (simp add: updateLogStatus_def loadLogs_def)
next
  case (Stored d)
  with assms have "find (\<lambda>log. le_id log = logId) (ld_logs d) = None"
    by (simp add: find_None_ids log_ids_def log_entries_def)
  with Stored show ?thesis by (simp add: updateLogStatus_def loadLogs_def)
qed

lemma updateLogStatus_known:
  assumes "logId \<in> set (log_ids fs)"
  shows "\<exists>d. fs_file fs = Stored d \<and>
     updateLogStatus now logId status messageId error fs =
       (if fs_writable fs
        then Inr (fs\<lparr>fs_file := Stored (finalized now logId status messageId error d)\<rparr>)
        else Inl ''Failed to save logs'')"
proof -
  from assms obtain d where d: "fs_file fs = Stored d"
    by (cases "fs_file fs") (simp_all add: log_ids_def log_entries_def)
  with assms have "find (\<lambda>log. le_id log = logId) (ld_logs d) \<noteq> None"
    by (simp add: find_None_ids log_ids_def log_entries_def)
  then obtain found where "find (\<lambda>log. le_id log = logId) (ld_logs d) = Some found"
    by auto
  with d show ?thesis
    by (simp add: updateLogStatus_def loadLogs_def saveLogs_def finalized_def Let_def)
qed

lemma finalized_ids: "map le_id (ld_logs (finalized now logId status messageId error d)) = map le_id (ld_logs d)"
  by (simp add: finalized_def Let_def map_update_first finalize_entry_id)

lemma finalized_idem:
  "finalized now2 logId status messageId error (finalized now logId status messageId error d)
     = (finalized now logId status messageId error d)\<lparr>ld_lastUpdated := now2\<rparr>"
  by (simp add: finalized_def Let_def update_first_idem finalize_entry_id finalize_entry_idem)

lemma finalized_consistent:
  "ld_totalEmails d = length (ld_logs d) \<Longrightarrow> counters_consistent (finalized now logId status messageId error d)"
  by (simp add: finalized_def Let_def counters_consistent_def length_update_first)

text \<open>
  C7. A call of \<open>updateLogStatus\<close> with a key that the store does not hold returns
  without an error and leaves the file as it is. No call adds or removes an entry: after
  a call that returns, the keys of the entries, and so their number, are the same as
  before, and a second call with the same key and status returns as well and leaves the
  entries as the first call made them. A call raises an error only when the key is known
  and the file cannot be written.
\<close>

theorem finalize_safe:
  "(logId \<notin> set (log_ids fs) \<longrightarrow> updateLogStatus now logId status messageId error fs = Inr fs)
   \<and> (updateLogStatus now logId status messageId error fs = Inr fs1 \<longrightarrow>
        log_ids fs1 = log_ids fs \<and> length (log_entries fs1) = length (log_entries fs)
        \<and> (\<exists>fs2. updateLogStatus now2 logId status messageId error fs1 = Inr fs2
              \<and> log_entries fs2 = log_entries fs1))
   \<and> (updateLogStatus now logId status messageId error fs = Inl msg \<longrightarrow>
        logId \<in> set (log_ids fs) \<and> \<not> fs_writable fs)"
proof (cases "logId \<in> set (log_ids fs)")
  case False
  then have u: "updateLogStatus now logId status messageId error fs = Inr fs"
    and u2: "updateLogStatus now2 logId status messageId error fs = Inr fs"
    by (simp_all add: updateLogStatus_unknown)
  then show ?thesis using False by auto
next
  case True
  from updateLogStatus_known [OF True] obtain d where d: "fs_file fs = Stored d"
    and u: "updateLogStatus now logId status messageId error fs =
       (if fs_writable fs
        then Inr (fs\<lparr>fs_file := Stored (finalized now logId status messageId error d)\<rparr>)
        else Inl ''Failed to save logs'')"
    by blast
  show ?thesis
  proof (cases "fs_writable fs")
    case w: False
    with u True show ?thesis by simp
  next
    case w: True
    let ?d1 = "finalized now logId status messageId error d"
    let ?fs1 = "fs\<lparr>fs_file := Stored ?d1\<rparr>"
    have ids: "log_ids ?fs1 = log_ids fs"
      using d by (simp add: log_ids_def log_entries_def finalized_ids)
    then have len: "length (log_entries ?fs1) = length (log_entries fs)"
      unfolding log_ids_def using map_eq_imp_length_eq by blast
    from True ids have k: "logId \<in> set (log_ids ?fs1)" by simp
    from updateLogStatus_known [OF k, of now2 status messageId error] w
    have "updateLogStatus now2 logId status messageId error ?fs1 =
        Inr (?fs1\<lparr>fs_file := Stored (finalized now2 logId status messageId error ?d1)\<rparr>)"
      by simp
    moreover have "log_entries (?fs1\<lparr>fs_file := Stored (finalized now2 logId status messageId error ?d1)\<rparr>)
        = log_entries ?fs1"
      by (simp add: log_entries_def finalized_idem)
    ultimately have again: "\<exists>fs2. updateLogStatus now2 logId status messageId error ?fs1 = Inr fs2
              \<and> log_entries fs2 = log_entries ?fs1"
      by blast
    from u w have r: "updateLogStatus now logId status messageId error fs = Inr ?fs1" by simp
    show ?thesis
    proof (intro conjI impI)
      assume "logId \<notin> set (log_ids fs)"
      with True show "updateLogStatus now logId status messageId error fs = Inr fs" by simp
    next
      assume "updateLogStatus now logId status messageId error fs = Inr fs1"
      with r have e: "fs1 = ?fs1" by simp
      show "log_ids fs1 = log_ids fs" unfolding e by (rule ids)
      show "length (log_entries fs1) = length (log_entries fs)" unfolding e by (rule len)
      show "\<exists>fs2. updateLogStatus now2 logId status messageId error fs1 = Inr fs2
              \<and> log_entries fs2 = log_entries fs1"
        unfolding e by (rule again)
    next
      assume "updateLogStatus now logId status messageId error fs = Inl msg"
      with r show "logId \<in> set (log_ids fs)" by simp
    next
      assume "updateLogStatus now logId status messageId error fs = Inl msg"
      with r show "\<not> fs_writable fs" by simp
    qed
  qed
qed

theorem finalize_safe_witness:
  "updateLogStatus 9 ''email_7'' ''failed'' None (Some ''boom'') ex_fs = Inr ex_fs
   \<and> (\<exists>fs1. updateLogStatus 9 ''email_1'' ''success'' (Some ''m1'') None ex_fs = Inr fs1
        \<and> log_ids fs1 = [''email_0'', ''email_1''] \<and> length (log_entries fs1) = 2
        \<and> (\<exists>fs2. updateLogStatus 10 ''email_1'' ''success'' (Some ''m1'') None fs1 = Inr fs2
              \<and> log_entries fs2 = log_entries fs1))
   \<and> updateLogStatus 9 ''email_1'' ''success'' (Some ''m1'') None (ex_fs\<lparr>fs_writable := False\<rparr>)
        = Inl ''Failed to save logs''
   \<and> ''email_1'' \<in> set (log_ids (ex_fs\<lparr>fs_writable := False\<rparr>))"
proof -
  have ids: "log_ids ex_fs = [''email_0'', ''email_1'']"
    and ids': "log_ids (ex_fs\<lparr>fs_writable := False\<rparr>) = [''email_0'', ''email_1'']"
    by (simp_all add: log_ids_def log_entries_def log_defs)
  have n: "''email_7'' \<notin> set (log_ids ex_fs)" unfolding ids by simp
  note a = finalize_safe [where logId = "''email_7''" and fs = ex_fs and now = 9
      and status = "''failed''" and messageId = None and error = "Some ''boom''",
      THEN conjunct1, THEN mp, OF n]
  have "\<exists>fs1. updateLogStatus 9 ''email_1'' ''success'' (Some ''m1'') None ex_fs = Inr fs1"
    by (simp add: updateLogStatus_def loadLogs_def saveLogs_def Let_def log_defs)
  then obtain fs1 where r: "updateLogStatus 9 ''email_1'' ''success'' (Some ''m1'') None ex_fs = Inr fs1"
    by blast
  note b = finalize_safe [where logId = "''email_1''" and fs = ex_fs and now = 9 and ?now2.0 = 10
      and status = "''success''" and messageId = "Some ''m1''" and error = None and ?fs1.0 = fs1,
      THEN conjunct2, THEN conjunct1, THEN mp, OF r]
  then have b': "\<exists>fs1. updateLogStatus 9 ''email_1'' ''success'' (Some ''m1'') None ex_fs = Inr fs1
        \<and> log_ids fs1 = [''email_0'', ''email_1''] \<and> length (log_entries fs1) = 2
        \<and> (\<exists>fs2. updateLogStatus 10 ''email_1'' ''success'' (Some ''m1'') None fs1 = Inr fs2
              \<and> log_entries fs2 = log_entries fs1)"
    using r ids by (intro exI [of _ fs1]) (simp add: log_ids_def log_entries_def log_defs)
  have c: "updateLogStatus 9 ''email_1'' ''success'' (Some ''m1'') None (ex_fs\<lparr>fs_writable := False\<rparr>)
        = Inl ''Failed to save logs''"
    by (simp add: updateLogStatus_def loadLogs_def saveLogs_def Let_def log_defs)
  note d = finalize_safe [where logId = "''email_1''" and fs = "ex_fs\<lparr>fs_writable := False\<rparr>"
      and now = 9 and status = "''success''" and messageId = "Some ''m1''" and error = None
      and msg = "''Failed to save logs''",
      THEN conjunct2, THEN conjunct2, THEN mp, OF c]
  from a b' c d show ?thesis by simp
qed

lemma logEmailAttempt_stored:
  assumes "persisted fs = Some d" and "logEmailAttempt now logId cfg dat fs = Inr (k, fs1)"
  shows "\<exists>e. le_status e = ''pending'' \<and> le_id e = logId \<and> k = logId
     \<and> fs1 = fs\<lparr>fs_file := Stored (d\<lparr>ld_logs := ld_logs d @ [e],
            ld_totalEmails := length (ld_logs d @ [e]),
            ld_pendingEmails := count_status ''pending'' (ld_logs d @ [e]),
            ld_lastUpdated := now\<rparr>)\<rparr>"
proof -
  from assms(1) have d: "fs_file fs = Stored d"
    by (cases "fs_file fs") (simp_all add: persisted_def)
  from assms(2) obtain c a where ca: "cfg = Some c" "dat = Some a"
    by (cases cfg; cases dat) (simp_all add: logEmailAttempt_def)
  let ?e = "new_log_entry now logId c a"
  have e: "le_status ?e = ''pending''" "le_id ?e = logId"
    by (simp_all add: new_log_entry_def)
  from assms(2) d ca have "k = logId \<and>
      fs1 = fs\<lparr>fs_file := Stored (d\<lparr>ld_logs := ld_logs d @ [?e],
            ld_totalEmails := length (ld_logs d @ [?e]),
            ld_pendingEmails := count_status ''pending'' (ld_logs d @ [?e]),
            ld_lastUpdated := now\<rparr>)\<rparr>"
    by (cases "fs_writable fs")
       (auto simp: logEmailAttempt_def loadLogs_def saveLogs_def Let_def)
  with e show ?thesis by blast
qed

text \<open>
  C10. When the persisted store has \<open>totalEmails\<close> equal to the number of its entries and
  its pending, successful and failed counters equal to the numbers of entries with status
  pending, success and failed, the store persisted by a call of \<open>logEmailAttempt\<close> or
  \<open>updateLogStatus\<close> that returns satisfies the same four equalities (a call that
  raises writes nothing); \<open>logEmailAttempt\<close> adds exactly one entry.
\<close>

theorem counters_preserved:
  "persisted fs = Some d \<and> counters_consistent d \<longrightarrow>
     (logEmailAttempt now newId cfg dat fs = Inr (k, fs1) \<longrightarrow>
        (\<exists>d1. persisted fs1 = Some d1 \<and> counters_consistent d1
           \<and> length (ld_logs d1) = Suc (length (ld_logs d))))
     \<and> (updateLogStatus now logId status messageId error fs = Inr fs2 \<longrightarrow>
        (\<exists>d2. persisted fs2 = Some d2 \<and> counters_consistent d2))"
proof (intro impI conjI)
  assume h: "persisted fs = Some d \<and> counters_consistent d"
    and a: "logEmailAttempt now newId cfg dat fs = Inr (k, fs1)"
  from h have p: "persisted fs = Some d" and c: "counters_consistent d" by simp_all
  from logEmailAttempt_stored [OF p a] obtain e where e: "le_status e = ''pending''"
    and fs1: "fs1 = fs\<lparr>fs_file := Stored (d\<lparr>ld_logs := ld_logs d @ [e],
            ld_totalEmails := length (ld_logs d @ [e]),
            ld_pendingEmails := count_status ''pending'' (ld_logs d @ [e]),
            ld_lastUpdated := now\<rparr>)\<rparr>"
    by blast
  let ?d1 = "d\<lparr>ld_logs := ld_logs d @ [e],
            ld_totalEmails := length (ld_logs d @ [e]),
            ld_pendingEmails := count_status ''pending'' (ld_logs d @ [e]),
            ld_lastUpdated := now\<rparr>"
  have "persisted fs1 = Some ?d1" using fs1 by (simp add: persisted_def)
  moreover have "counters_consistent ?d1"
    using c e by (simp add: counters_consistent_def count_status_snoc)
  moreover have "length (ld_logs ?d1) = Suc (length (ld_logs d))" by simp
  ultimately show "\<exists>d1. persisted fs1 = Some d1 \<and> counters_consistent d1
           \<and> length (ld_logs d1) = Suc (length (ld_logs d))"
    by blast
next
  assume h: "persisted fs = Some d \<and> counters_consistent d"
    and a: "updateLogStatus now logId status messageId error fs = Inr fs2"
  from h have d: "fs_file fs = Stored d" and c: "counters_consistent d"
    by (cases "fs_file fs"; simp add: persisted_def)+
  show "\<exists>d2. persisted fs2 = Some d2 \<and> counters_consistent d2"
  proof (cases "logId \<in> set (log_ids fs)")
    case False
    with a have "fs2 = fs" by (simp add: updateLogStatus_unknown)
    with h show ?thesis by blast
  next
    case True
    from updateLogStatus_known [OF True, of now status messageId error] d a
    have "fs2 = fs\<lparr>fs_file := Stored (finalized now logId status messageId error d)\<rparr>"
      by (auto split: if_splits)
    then have "persisted fs2 = Some (finalized now logId status messageId error d)"
      by (simp add: persisted_def)
    moreover from c have "ld_totalEmails d = length (ld_logs d)"
      by (simp add: counters_consistent_def)
    then have "counters_consistent (finalized now logId status messageId error d)"
      by (rule finalized_consistent)
    ultimately show ?thesis by blast
  qed
qed

theorem counters_preserved_witness:
  "persisted ex_fs = Some ex_logs \<and> counters_consistent ex_logs
   \<and> (\<exists>k fs1 d1. logEmailAttempt 9 ''email_2'' (Some ex_cfg) (Some ex_dat) ex_fs = Inr (k, fs1)
        \<and> persisted fs1 = Some d1 \<and> counters_consistent d1 \<and> length (ld_logs d1) = 3)
   \<and> (\<exists>fs2 d2. updateLogStatus 9 ''email_1'' ''failed'' None (Some ''boom'') ex_fs = Inr fs2
        \<and> persisted fs2 = Some d2 \<and> counters_consistent d2)"
proof -
  have h: "persisted ex_fs = Some ex_logs \<and> counters_consistent ex_logs"
    by (simp add: persisted_def counters_consistent_def count_status_def log_defs)
  have "\<exists>k fs1. logEmailAttempt 9 ''email_2'' (Some ex_cfg) (Some ex_dat) ex_fs = Inr (k, fs1)"
    by (simp add: logEmailAttempt_def loadLogs_def saveLogs_def Let_def ex_fs_def)
  then obtain k fs1 where a: "logEmailAttempt 9 ''email_2'' (Some ex_cfg) (Some ex_dat) ex_fs = Inr (k, fs1)"
    by blast
  have "\<exists>fs2. updateLogStatus 9 ''email_1'' ''failed'' None (Some ''boom'') ex_fs = Inr fs2"
    by (simp add: updateLogStatus_def loadLogs_def saveLogs_def Let_def log_defs)
  then obtain fs2 where b: "updateLogStatus 9 ''email_1'' ''failed'' None (Some ''boom'') ex_fs = Inr fs2"
    by blast
  note t = counters_preserved [where fs = ex_fs and d = ex_logs and now = 9 and newId = "''email_2''"
      and cfg = "Some ex_cfg" and dat = "Some ex_dat" and k = k and ?fs1.0 = fs1
      and logId = "''email_1''" and status = "''failed''" and messageId = None
      and error = "Some ''boom''" and ?fs2.0 = fs2, THEN mp, OF h]
  from t [THEN conjunct1, THEN mp, OF a] obtain d1 where
    "persisted fs1 = Some d1" "counters_consistent d1" "length (ld_logs d1) = Suc (length (ld_logs ex_logs))"
    by blast
  with a have 1: "\<exists>k fs1 d1. logEmailAttempt 9 ''email_2'' (Some ex_cfg) (Some ex_dat) ex_fs = Inr (k, fs1)
        \<and> persisted fs1 = Some d1 \<and> counters_consistent d1 \<and> length (ld_logs d1) = 3"
    by (intro exI [of _ k] exI [of _ fs1] exI [of _ d1]) (simp add: ex_logs_def)
  from t [THEN conjunct2, THEN mp, OF b] obtain d2 where
    "persisted fs2 = Some d2" "counters_consistent d2"
    by blast
  with b have 2: "\<exists>fs2 d2. updateLogStatus 9 ''email_1'' ''failed'' None (Some ''boom'') ex_fs = Inr fs2
        \<and> persisted fs2 = Some d2 \<and> counters_consistent d2"
    by blast
  from h 1 2 show ?thesis by blast
qed

section \<open>Properties of the email history\<close>

lemma newest_first_sorted: "sorted_wrt (\<lambda>a b. created b \<le> created a) (newest_first es)"
proof -
  have "sorted (map (\<lambda>e. - int (created e)) (newest_first es))"
    unfolding newest_first_def by (rule sorted_sort_key)
  then show ?thesis by (simp add: sorted_map)
qed

lemma newest_first_set: "set (newest_first es) = set es"
  by (simp add: newest_first_def)

lemma newest_first_length: "length (newest_first es) = length es"
  by (simp add: newest_first_def)

lemma get_emails_page:
  assumes "q_page q = Some p" and "q_limit q = Some l" and "1 \<le> p" and "1 \<le> l"
  shows "get_emails ledger req q =
     HttpOk \<lparr>ep_emails = take (nat l) (drop (nat ((p - 1) * l))
                 (newest_first (filter (matches_filter (rq_userId req) q) ledger))),
             ep_pagination =
               \<lparr>pg_current = p,
                pg_total = Some (- ((- int (length (filter (matches_filter (rq_userId req) q) ledger))) div l)),
                pg_hasNext = ((p - 1) * l + int (length (take (nat l) (drop (nat ((p - 1) * l))
                     (newest_first (filter (matches_filter (rq_userId req) q) ledger)))))
                   < int (length (filter (matches_filter (rq_userId req) q) ledger))),
                pg_hasPrev = (p > 1)\<rparr>\<rparr>"
proof -
  from assms have "\<not> (p - 1) * l < 0" by (simp add: zero_le_mult_iff not_less)
  with assms show ?thesis
    by (simp add: get_emails_def Let_def db_limit_def)
qed

text \<open>
  C8 (as amended). The history query of routes/emails.js, for a page number and a page
  size of at least 1, returns the records that belong to the caller and pass the filters,
  ordered newest first by creation time, skipping \<open>(page - 1) * limit\<close> records and
  returning at most \<open>limit\<close>; for a caller with exactly 25 records and no filter, page 1
  with limit 20 has 20 records and page 2 has exactly 5, and the two pages together are
  the caller's records newest first. The query of server.js does not paginate.
\<close>

theorem history_pagination:
  "(q_page q = Some p \<and> q_limit q = Some l \<and> 1 \<le> p \<and> 1 \<le> l \<longrightarrow>
      (\<exists>page. get_emails ledger req q = HttpOk page
         \<and> ep_emails page = take (nat l) (drop (nat ((p - 1) * l))
              (newest_first (filter (matches_filter (rq_userId req) q) ledger)))
         \<and> (\<forall>e \<in> set (ep_emails page). em_user e = rq_userId req)
         \<and> sorted_wrt (\<lambda>a b. created b \<le> created a) (ep_emails page)))
   \<and> (q_companyId q = None \<and> q_status q = None
        \<and> length (filter (\<lambda>e. em_user e = rq_userId req) ledger) = 25 \<longrightarrow>
      (\<exists>p1 p2. get_emails ledger req (q\<lparr>q_page := Some 1, q_limit := Some 20\<rparr>) = HttpOk p1
         \<and> get_emails ledger req (q\<lparr>q_page := Some 2, q_limit := Some 20\<rparr>) = HttpOk p2
         \<and> length (ep_emails p1) = 20 \<and> length (ep_emails p2) = 5
         \<and> ep_emails p1 @ ep_emails p2
             = newest_first (filter (\<lambda>e. em_user e = rq_userId req) ledger)))"
proof (intro conjI impI)
  assume h: "q_page q = Some p \<and> q_limit q = Some l \<and> 1 \<le> p \<and> 1 \<le> l"
  let ?all = "newest_first (filter (matches_filter (rq_userId req) q) ledger)"
  let ?emails = "take (nat l) (drop (nat ((p - 1) * l)) ?all)"
  from h get_emails_page [of q p l ledger req]
  obtain page where g: "get_emails ledger req q = HttpOk page" and e: "ep_emails page = ?emails"
    by auto
  have "set ?emails \<subseteq> set ?all"
    by (meson set_take_subset set_drop_subset subset_trans)
  then have o: "\<forall>e \<in> set ?emails. em_user e = rq_userId req"
    by (auto simp: newest_first_set matches_filter_def)
  have s: "sorted_wrt (\<lambda>a b. created b \<le> created a) ?emails"
    by (intro sorted_wrt_take sorted_wrt_drop newest_first_sorted)
  from g e o s show "\<exists>page. get_emails ledger req q = HttpOk page
         \<and> ep_emails page = ?emails
         \<and> (\<forall>e \<in> set (ep_emails page). em_user e = rq_userId req)
         \<and> sorted_wrt (\<lambda>a b. created b \<le> created a) (ep_emails page)"
    by simp
next
  assume h: "q_companyId q = None \<and> q_status q = None
        \<and> length (filter (\<lambda>e. em_user e = rq_userId req) ledger) = 25"
  let ?q1 = "q\<lparr>q_page := Some 1, q_limit := Some 20\<rparr>"
  let ?q2 = "q\<lparr>q_page := Some 2, q_limit := Some 20\<rparr>"
  let ?all = "newest_first (filter (\<lambda>e. em_user e = rq_userId req) ledger)"
  from h have m1: "matches_filter (rq_userId req) ?q1 = (\<lambda>e. em_user e = rq_userId req)"
    and m2: "matches_filter (rq_userId req) ?q2 = (\<lambda>e. em_user e = rq_userId req)"
    by (auto simp: matches_filter_def truthy_def)
  from h have len: "length ?all = 25" by (simp add: newest_first_length)
  from get_emails_page [of ?q1 1 20 ledger req] m1
  obtain p1 where g1: "get_emails ledger req ?q1 = HttpOk p1" and e1: "ep_emails p1 = take 20 ?all"
    by auto
  from get_emails_page [of ?q2 2 20 ledger req] m2
  obtain p2 where g2: "get_emails ledger req ?q2 = HttpOk p2"
    and e2: "ep_emails p2 = take 20 (drop 20 ?all)"
    by auto
  from len have t: "take 20 (drop 20 ?all) = drop 20 ?all" by simp
  from len e1 have l1: "length (ep_emails p1) = 20" by simp
  from len e2 have l2: "length (ep_emails p2) = 5" by simp
  from e1 e2 t have "ep_emails p1 @ ep_emails p2 = ?all" by simp
  with g1 g2 l1 l2 show "\<exists>p1 p2. get_emails ledger req ?q1 = HttpOk p1
         \<and> get_emails ledger req ?q2 = HttpOk p2
         \<and> length (ep_emails p1) = 20 \<and> length (ep_emails p2) = 5
         \<and> ep_emails p1 @ ep_emails p2 = ?all"
    by blast
qed

lemma ex_ledger_count: "length (filter (\<lambda>e. em_user e = rq_userId ex_req) ex_ledger) = 25"
  by (simp add: ex_ledger_def ex_req_def ex_email_def filter_map o_def)

theorem history_pagination_witness:
  "length (filter (\<lambda>e. em_user e = rq_userId ex_req) ex_ledger) = 25
   \<and> (\<exists>page. get_emails ex_ledger ex_req ex_query = HttpOk page
        \<and> length (ep_emails page) = 5
        \<and> list_all (\<lambda>e. em_user e = ''u1'') (ep_emails page)
        \<and> sorted_wrt (\<lambda>a b. created b \<le> created a) (ep_emails page))"
proof -
  have q: "q_page ex_query = Some 2 \<and> q_limit ex_query = Some 20 \<and> (1::int) \<le> 2 \<and> (1::int) \<le> 20"
    by (simp add: ex_query_def)
  have h: "q_companyId ex_query = None \<and> q_status ex_query = None
        \<and> length (filter (\<lambda>e. em_user e = rq_userId ex_req) ex_ledger) = 25"
    using ex_ledger_count by (simp add: ex_query_def)
  have q2: "ex_query\<lparr>q_page := Some 2, q_limit := Some 20\<rparr> = ex_query"
    by (simp add: ex_query_def)
  note t = history_pagination [where q = ex_query and p = 2 and l = 20 and ledger = ex_ledger
      and req = ex_req]
  from t [THEN conjunct1, THEN mp, OF q] obtain page where
    g: "get_emails ex_ledger ex_req ex_query = HttpOk page"
    and o: "\<forall>e \<in> set (ep_emails page). em_user e = rq_userId ex_req"
    and s: "sorted_wrt (\<lambda>a b. created b \<le> created a) (ep_emails page)"
    by blast
  from t [THEN conjunct2, THEN mp, OF h] q2 obtain p2 where
    g2: "get_emails ex_ledger ex_req ex_query = HttpOk p2" and l: "length (ep_emails p2) = 5"
    by auto
  from g g2 have "p2 = page" by simp
  with l have l': "length (ep_emails page) = 5" by simp
  from o have o': "list_all (\<lambda>e. em_user e = ''u1'') (ep_emails page)"
    by (simp add: list_all_iff ex_req_def)
  from ex_ledger_count g l' o' s show ?thesis by blast
qed

text \<open>
  C8 as stated fails on server.js: with 25 records of the caller, the query for page 2
  with limit 20 returns all 25.
\<close>

theorem history_pagination_counterexample:
  "dl_total (server_get_emails ex_db25 ex_req ex_query) = 25
   \<and> length (dl_emails (server_get_emails ex_db25 ex_req ex_query)) = 25"
  by (simp add: server_get_emails_def ex_db25_def ex_req_def ex_query_def ex_db_email_def
        truthy_def Let_def filter_map o_def)

section \<open>Properties of the error answers\<close>







text \<open>
  In \<^verbatim>\<open>POST /send\<close> of routes/emails.js a failing \<^verbatim>\<open>sendMail\<close> ends in the
  ReferenceError of the \<^verbatim>\<open>catch\<close> block: no record is written and no answer is sent.
\<close>

lemma send_email_failure_unhandled:
  assumes "truthy (sb_companyId body)" and "truthy (sb_to body)" and "truthy (sb_subject body)"
    and "truthy (sb_htmlContent body)"
    and "find_active_company companies (str_of (sb_companyId body)) (rq_userId req) = Some company"
    and "routes_transport_options (co_emailSettings company) = Inr opts"
    and "\<forall>i m. isl (sendMail opts i m)"
  shows "\<exists>st1. send_email sendMail persist companies req body st
           = (st1, Unhandled ''ReferenceError: emailRecord is not defined'')
         \<and> st_ledger st1 = st_ledger st"
proof -
  let ?m = "\<lparr>mo_from = from_header company, mo_to = sb_to body, mo_cc = None,
             mo_subject = sb_subject body, mo_html = sb_htmlContent body,
             mo_text = Some (if truthy (sb_textContent body)
                             then str_of (sb_textContent body)
                             else strip_tags (str_of (sb_htmlContent body)))\<rparr>"
  from assms(7) obtain err where "sendMail opts 0 ?m = Inl err"
    by (cases "sendMail opts 0 ?m") (metis isl_def sum.disc(2))+
  with assms(1-6) show ?thesis
    by (simp add: send_email_def send_dispatch_def send_catch_def Let_def log_event_def)
qed


end
